theory Spec2Isabelle
  imports Complex_Main "HOL-Library.AList" "HOL-Library.Sublist"
begin

section \<open>JavaScript values used by both modules\<close>

text \<open>
  Strings are lists of characters. The escape character and the line feed have no
  printable literal, so they get names.
\<close>

definition esc :: string where
  "esc = [CHR 0x1B]"

definition nl :: string where
  "nl = [CHR 0x0A]"

text \<open>
  \<^verbatim>\<open>String(n)\<close> for a non-negative integer: its decimal digits. (JavaScript prints an integer
  of 22 digits or more with an exponent; counts and milliseconds stay far below.)
\<close>

definition digit_char :: "nat \<Rightarrow> char" where
  "digit_char d = ''0123456789'' ! d"

function show_nat :: "nat \<Rightarrow> string" where
  "show_nat n = (if n < 10 then [digit_char n] else show_nat (n div 10) @ [digit_char (n mod 10)])"
  by pat_completeness auto
termination
  by (relation "measure (\<lambda>n. n)") auto

declare show_nat.simps [simp del]

definition show_int :: "int \<Rightarrow> string" where
  "show_int i = (if i < 0 then ''-'' @ show_nat (nat (- i)) else show_nat (nat i))"

text \<open>
  \<^verbatim>\<open>Math.round\<close> on a finite number: the nearest integer, a tie going up. Durations are
  finite and are modelled by the rational they denote.
\<close>

definition math_round :: "rat \<Rightarrow> int" where
  "math_round x = \<lfloor>x + 1 / 2\<rfloor>"

text \<open>Truthiness of an optional string: \<^verbatim>\<open>undefined\<close> and the empty string are falsy.\<close>

definition truthy :: "string option \<Rightarrow> bool" where
  "truthy v = (case v of None \<Rightarrow> False | Some s \<Rightarrow> s \<noteq> [])"

section \<open>The reporter (\<^verbatim>\<open>src/reporter.ts\<close>)\<close>

text \<open>
  The event union. \<open>TestFail\<close> carries \<^verbatim>\<open>error.cause.stack\<close>; \<open>TestSummary\<close> carries the three
  counts, the duration and the \<^verbatim>\<open>file\<close> marker; \<open>OtherEvent\<close> is any event whose type is none
  of the four of the \<^verbatim>\<open>switch\<close>.
\<close>

datatype event =
    TestComplete string nat bool rat
  | TestStart string nat
  | TestFail string nat string
  | TestSummary nat nat nat rat "string option"
  | OtherEvent string

definition getColoredStr :: "nat \<Rightarrow> string \<Rightarrow> string" where
  "getColoredStr color str = esc @ ''['' @ show_nat color @ ''m'' @ str @ esc @ ''[0m''"

definition ms :: rat where
  "ms = 75"

definition f :: string where
  "f = getColoredStr 31 ''!''"

definition slow :: string where
  "slow = getColoredStr 93 ''.''"

definition medium :: string where
  "medium = getColoredStr 33 ''.''"

definition fast :: string where
  "fast = getColoredStr 90 ''.''"

text \<open>The four variables of the generator.\<close>

record rstate =
  output_txt :: string
  cur :: string
  pass :: nat
  fail :: nat

definition init_rstate :: rstate where
  "init_rstate = \<lparr>output_txt = [], cur = [], pass = 0, fail = 0\<rparr>"

text \<open>
  One turn of the \<^verbatim>\<open>for await\<close> loop: the new state and what is yielded, \<open>None\<close> when the
  turn reaches no \<^verbatim>\<open>yield\<close>.
\<close>

fun step :: "rstate \<Rightarrow> event \<Rightarrow> rstate \<times> string option" where
  "step st (TestComplete name nesting passed duration) =
     (let symbol = (if \<not> passed then f
                    else if duration > ms then slow
                    else (if duration > ms / 2 then medium else fast))
      in if nesting = 0 then (st, Some [])
         else (st\<lparr>pass := pass st + 1\<rparr>,
               Some ((if pass st = 0 then nl @ nl @ ''  '' else []) @ symbol)))"
| "step st (TestStart name nesting) =
     ((if nesting = 0 then st\<lparr>cur := name\<rparr> else st), Some [])"
| "step st (TestFail name nesting stack) =
     ((if nesting > 0
       then (let st1 = st\<lparr>fail := fail st + 1\<rparr>;
                 st2 = st1\<lparr>output_txt := output_txt st1 @ ''  '' @ show_nat (fail st1) @ '') '' @ cur st1 @ nl\<rparr>;
                 indent = replicate (length (show_nat (fail st2)) + 4) CHR '' ''
             in st2\<lparr>output_txt := output_txt st2 @ indent @ ''  '' @ name @ nl @ indent @ stack @ nl @ nl\<rparr>)
       else st), Some [])"
| "step st (TestSummary passed failed skipped duration file) =
     (if \<not> truthy file
      then (let passing = getColoredStr 32 (nl @ ''  '' @ show_nat passed @ '' passing'');
                time = getColoredStr 90 (''('' @ show_int (math_round duration) @ ''ms)'');
                pending = (if skipped \<noteq> 0
                           then getColoredStr 36 (nl @ ''  '' @ show_nat skipped @ '' pending'') else []);
                failing = (if failed \<noteq> 0
                           then getColoredStr 31 (nl @ ''  '' @ show_nat failed @ '' failing'') else [])
            in (st, Some ('' '' @ nl @ passing @ '' '' @ time @ pending @ failing @ nl @ nl @ output_txt st)))
      else (st, None))"
| "step st (OtherEvent type) = (st, None)"

text \<open>The generator on a finite run of events: the fragments in the order they are yielded.\<close>

fun fragments :: "rstate \<Rightarrow> event list \<Rightarrow> string list" where
  "fragments st [] = []"
| "fragments st (e # es) =
     (case step st e of (st', y) \<Rightarrow> (case y of None \<Rightarrow> [] | Some s \<Rightarrow> [s]) @ fragments st' es)"

fun state_after :: "rstate \<Rightarrow> event list \<Rightarrow> rstate" where
  "state_after st [] = st"
| "state_after st (e # es) = state_after (fst (step st e)) es"

definition reporter :: "event list \<Rightarrow> string list" where
  "reporter source = fragments init_rstate source"

text \<open>The events whose turn reaches a \<^verbatim>\<open>yield\<close>.\<close>

fun yields :: "event \<Rightarrow> bool" where
  "yields (TestSummary passed failed skipped duration file) = (\<not> truthy file)"
| "yields (OtherEvent type) = False"
| "yields e = True"

section \<open>Thrown values\<close>

text \<open>
  What a JavaScript \<^verbatim>\<open>throw\<close> can carry: an \<^verbatim>\<open>assert.AssertionError\<close> with the two values that
  were compared, any other \<^verbatim>\<open>Error\<close> with its message, or a value that is no \<^verbatim>\<open>Error\<close> at all.
  The last field of the two errors is \<^verbatim>\<open>cause.message\<close>, when a cause was attached.
\<close>

datatype thrown =
    AssertionError "string list option" "string list option" "string option"
  | OtherError string "string option"
  | NonError string

fun is_AssertionError :: "thrown \<Rightarrow> bool" where
  "is_AssertionError (AssertionError actual expected cause) = True"
| "is_AssertionError e = False"

fun is_Error :: "thrown \<Rightarrow> bool" where
  "is_Error (NonError v) = False"
| "is_Error e = True"

section \<open>The regular expression of \<^verbatim>\<open>split\<close> and \<^verbatim>\<open>String.prototype.split\<close>\<close>

text \<open>\<^verbatim>\<open>\w\<close> without the \<^verbatim>\<open>i\<close> flag: an ASCII letter, a digit or the underscore.\<close>

definition is_letter :: "char \<Rightarrow> bool" where
  "is_letter ch = (ch \<in> set ''abcdefghijklmnopqrstuvwxyzABCDEFGHIJKLMNOPQRSTUVWXYZ'')"

definition is_word_char :: "char \<Rightarrow> bool" where
  "is_word_char ch = (is_letter ch \<or> ch \<in> set ''0123456789'' \<or> ch = CHR ''_'')"

text \<open>\<^verbatim>\<open>(?<=<\/>)\<close> at position \<open>q\<close>: the three characters before \<open>q\<close> are \<^verbatim>\<open></>\<close>.\<close>

definition after_close :: "string \<Rightarrow> nat \<Rightarrow> bool" where
  "after_close s q = (3 \<le> q \<and> q \<le> length s \<and> take 3 (drop (q - 3) s) = ''</>'')"

text \<open>\<^verbatim>\<open>(?=<\w)\<close> at position \<open>q\<close>: the next two characters are \<^verbatim>\<open><\<close> and a word character.\<close>

definition before_open :: "string \<Rightarrow> nat \<Rightarrow> bool" where
  "before_open s q = (case drop q s of a # b # rest \<Rightarrow> a = CHR ''<'' \<and> is_word_char b | _ \<Rightarrow> False)"

text \<open>
  The whole pattern \<^verbatim>\<open>(?<=<\/>)(?!$)|(?<!^)(?=<\w)\<close> at position \<open>q\<close>. Both alternatives are
  assertions only, so a match is empty and ends where it starts. Without the \<^verbatim>\<open>m\<close> flag
  \<^verbatim>\<open>$\<close> is the end of the string and \<^verbatim>\<open>^\<close> its start.
\<close>

definition split_matches :: "string \<Rightarrow> nat \<Rightarrow> bool" where
  "split_matches s q = ((after_close s q \<and> q \<noteq> length s) \<or> (q \<noteq> 0 \<and> before_open s q))"

text \<open>
  The loop of \<^verbatim>\<open>RegExp.prototype[Symbol.split]\<close>: \<open>p\<close> is the start of the token being
  read, \<open>q\<close> the position tried. A match at \<open>q\<close> ends at \<open>q\<close>; when that is \<open>p\<close> the position
  advances, otherwise the token from \<open>p\<close> to \<open>q\<close> is pushed and reading restarts at \<open>q\<close>.
  The tail from \<open>p\<close> is pushed at the end. A position is a code unit; with the \<^verbatim>\<open>u\<close> flag the
  loop steps over a surrogate pair at once, and at the position inside a pair neither
  assertion holds, so the tokens are the same.
\<close>

function split_loop :: "string \<Rightarrow> nat \<Rightarrow> nat \<Rightarrow> string list" where
  "split_loop s p q =
     (if q < length s
      then (if \<not> split_matches s q then split_loop s p (q + 1)
            else if q = p then split_loop s p (q + 1)
            else take (q - p) (drop p s) # split_loop s q q)
      else [drop p s])"
  by pat_completeness auto
termination
  by (relation "measure (\<lambda>(s, p, q). 2 * (length s - q) + (if p = q then 0 else 1))") auto

declare split_loop.simps [simp del]

definition split_str :: "string \<Rightarrow> string list" where
  "split_str s =
     (if length s = 0 then (if split_matches s 0 then [] else [s]) else split_loop s 0 0)"

section \<open>The test corpus (\<^verbatim>\<open>src/index.ts\<close>)\<close>

text \<open>
  \<^verbatim>\<open>TestResult\<close> picks three fields of \<^verbatim>\<open>Test\<close>, so \<open>Test\<close> extends it and a \<open>Test\<close> can stand
  wherever a \<open>TestResult\<close> is read. An optional field is an \<open>option\<close>; \<^verbatim>\<open>delete\<close> makes it
  \<open>None\<close>.
\<close>

record TestResult =
  desc :: string
  wikitext :: "string option"
  parsed :: "string option"

record Test = TestResult +
  title :: "string option"
  html :: "string option"
  print :: "string option"
  render :: "string option"

text \<open>\<^verbatim>\<open>test?.parsed?.split(...)\<close>\<close>

definition split :: "'a TestResult_scheme option \<Rightarrow> string list option" where
  "split test =
     (case test of None \<Rightarrow> None
      | Some t \<Rightarrow> (case parsed t of None \<Rightarrow> None | Some p \<Rightarrow> Some (split_str p)))"

section \<open>Pages and the module's state\<close>

record revision =
  content :: string
  contentmodel :: string

record page_core =
  pageid :: int
  title :: string
  ns :: int

record MediaWikiPage = page_core +
  revisions :: "revision list option"

record MediaWikiResponse =
  query_pages :: "MediaWikiPage list"
  continue :: "(string \<times> string) list option"

text \<open>
  The object built by the \<^verbatim>\<open>map\<close> of \<open>getPages\<close>: its content is \<^verbatim>\<open>false\<close> (here \<open>None\<close>) or a
  string. The \<^verbatim>\<open>filter\<close> keeps those with a string, which are the \<open>SimplePage\<close>s.
\<close>

record mapped_page = page_core +
  content_or_false :: "string option"

record SimplePage = page_core +
  content :: string

datatype log_entry =
    LogStart string
  | ErrParse string thrown
  | LogWorst string rat
  | ErrApi string thrown
  | ErrSite string nat

text \<open>
  The mutable state of the module: the continuation token \<open>c\<close>, the array \<open>tests\<close> (references
  into \<open>objs\<close>, the test objects themselves, which closures keep hold of), and what was written
  to the console.
\<close>

record state =
  c :: "(string \<times> string) list option"
  tests :: "nat list"
  objs :: "Test list"
  console :: "log_entry list"

definition apis :: "(string \<times> string) list" where
  "apis =
     [([CHR 0xE7, CHR 0xBB, CHR 0xB4, CHR 0xE5, CHR 0x9F, CHR 0xBA, CHR 0xE7, CHR 0x99, CHR 0xBE,
        CHR 0xE7, CHR 0xA7, CHR 0x91], ''https://zh.wikipedia.org/w''),
      (''Wikipedia'', ''https://en.wikipedia.org/w''),
      ([CHR 0xE3, CHR 0x82, CHR 0xA6, CHR 0xE3, CHR 0x82, CHR 0xA3, CHR 0xE3, CHR 0x82, CHR 0xAD,
        CHR 0xE3, CHR 0x83, CHR 0x9A, CHR 0xE3, CHR 0x83, CHR 0x87, CHR 0xE3, CHR 0x82, CHR 0xA3,
        CHR 0xE3, CHR 0x82, CHR 0xA2], ''https://ja.wikipedia.org/w'')]"

section \<open>\<open>getPages\<close> and \<open>reset\<close>\<close>

text \<open>An object spread \<^verbatim>\<open>{...base, ...ext}\<close>: a later entry replaces the value of its key.\<close>

definition spread :: "(string \<times> string) list \<Rightarrow> (string \<times> string) list \<Rightarrow> (string \<times> string) list" where
  "spread base ext = fold (\<lambda>(k, v). AList.update k v) ext base"

definition qs :: "(string \<times> string) list option \<Rightarrow> string option \<Rightarrow> string \<Rightarrow> (string \<times> string) list" where
  "qs token site grclimit =
     spread
       [(''action'', ''query''),
        (''format'', ''json''),
        (''formatversion'', ''2''),
        (''errorformat'', ''plaintext''),
        (''generator'', ''recentchanges''),
        (''grcnamespace'', if site = Some ''MediaWiki'' then ''0|10|12|100|102|104|106'' else ''0|10''),
        (''grclimit'', grclimit),
        (''grctype'', ''edit|new''),
        (''grctoponly'', ''1''),
        (''prop'', ''revisions''),
        (''rvprop'', ''contentmodel|content'')]
       (case token of None \<Rightarrow> [] | Some m \<Rightarrow> m)"

text \<open>\<^verbatim>\<open>revisions?.[0]?.contentmodel === 'wikitext' && revisions[0].content\<close>\<close>

definition first_wikitext :: "revision list option \<Rightarrow> string option" where
  "first_wikitext revs =
     (case revs of None \<Rightarrow> None
      | Some [] \<Rightarrow> None
      | Some (r # rest) \<Rightarrow> if contentmodel r = ''wikitext'' then Some (revision.content r) else None)"

definition map_page :: "MediaWikiPage \<Rightarrow> mapped_page" where
  "map_page pg =
     \<lparr>pageid = pageid pg, title = page_core.title pg, ns = ns pg,
      content_or_false = first_wikitext (revisions pg)\<rparr>"

definition as_SimplePage :: "mapped_page \<Rightarrow> SimplePage" where
  "as_SimplePage m =
     \<lparr>pageid = pageid m, title = page_core.title m, ns = ns m,
      content = (case content_or_false m of Some s \<Rightarrow> s | None \<Rightarrow> [])\<rparr>"

definition pages_of :: "MediaWikiPage list \<Rightarrow> SimplePage list" where
  "pages_of pgs = map as_SimplePage (filter (\<lambda>m. content_or_false m \<noteq> None) (map map_page pgs))"

text \<open>
  The request is answered by \<open>fetch\<close>, which gets the URL and the query parameters and either
  throws (the network, or the decoding of the body) or gives the response. The header of the
  request is the same for every call and is left out. An absent \<open>grclimit\<close> is \<^verbatim>\<open>'max'\<close>.
\<close>

definition getPages ::
  "(string \<Rightarrow> (string \<times> string) list \<Rightarrow> thrown + MediaWikiResponse) \<Rightarrow> string \<Rightarrow> string option \<Rightarrow>
   string option \<Rightarrow> state \<Rightarrow> (thrown + SimplePage list) \<times> state" where
  "getPages fetch url site grclimit st =
     (case fetch url (qs (c st) site (case grclimit of None \<Rightarrow> ''max'' | Some l \<Rightarrow> l)) of
        Inl e \<Rightarrow> (Inl e, st)
      | Inr response \<Rightarrow> (Inr (pages_of (query_pages response)), st\<lparr>c := continue response\<rparr>))"

definition reset :: "state \<Rightarrow> state" where
  "reset st = st\<lparr>c := None\<rparr>"

section \<open>\<open>execute\<close>\<close>

definition log :: "log_entry \<Rightarrow> state \<Rightarrow> state" where
  "log entry st = st\<lparr>console := console st @ [entry]\<rparr>"

text \<open>
  The inner \<^verbatim>\<open>for ... of\<close> loop over the pages of one response. \<open>parse\<close> throws or returns;
  \<open>dur i\<close> is the time measured around the parse of the page counted \<open>i\<close>. The local variables
  are \<open>failed\<close>, \<open>i\<close> and \<open>worst\<close>.
\<close>

fun parse_pages ::
  "(string \<Rightarrow> thrown + unit) \<Rightarrow> (nat \<Rightarrow> rat) \<Rightarrow> SimplePage list \<Rightarrow>
   nat \<times> nat \<times> (string \<times> rat) option \<Rightarrow> state \<Rightarrow> (nat \<times> nat \<times> (string \<times> rat) option) \<times> state" where
  "parse_pages parse dur [] acc st = (acc, st)"
| "parse_pages parse dur (pg # pgs) (failed, i, worst) st =
     (case parse (content pg) of
        Inr u \<Rightarrow>
          (let duration = dur i
           in parse_pages parse dur pgs
                (failed, i + 1,
                 (case worst of None \<Rightarrow> Some (page_core.title pg, duration)
                  | Some (t, d) \<Rightarrow> if duration > d then Some (page_core.title pg, duration) else worst))
                st)
      | Inl e \<Rightarrow>
          parse_pages parse dur pgs (failed + 1, i + 1, worst) (log (ErrParse (page_core.title pg) e) st))"

text \<open>
  The loop \<^verbatim>\<open>for (let j = 0; j < retry; j++)\<close>. The answer to the request of turn \<open>j\<close> is
  \<open>net j\<close>. A throw of \<open>getPages\<close> leaves the loop with the locals lost.
\<close>

function fetch_loop ::
  "(nat \<Rightarrow> string \<Rightarrow> (string \<times> string) list \<Rightarrow> thrown + MediaWikiResponse) \<Rightarrow>
   (string \<Rightarrow> thrown + unit) \<Rightarrow> (nat \<Rightarrow> rat) \<Rightarrow> string \<Rightarrow> string \<Rightarrow> string option \<Rightarrow> nat \<Rightarrow> nat \<Rightarrow>
   nat \<times> nat \<times> (string \<times> rat) option \<Rightarrow> state \<Rightarrow>
   (thrown + nat \<times> nat \<times> (string \<times> rat) option) \<times> state" where
  "fetch_loop net parse dur url site grclimit retry j acc st =
     (if j < retry
      then (case getPages (net j) (url @ ''/api.php'') (Some site) grclimit st of
              (Inl e, st1) \<Rightarrow> (Inl e, st1)
            | (Inr pgs, st1) \<Rightarrow>
                (case parse_pages parse dur pgs acc st1 of
                   (acc2, st2) \<Rightarrow> fetch_loop net parse dur url site grclimit retry (j + 1) acc2 st2))
      else (Inr acc, st))"
  by pat_completeness auto
termination
  by (relation "measure (\<lambda>(net, parse, dur, url, site, grclimit, retry, j, acc, st). retry - j)") auto

declare fetch_loop.simps [simp del]

text \<open>Reading \<^verbatim>\<open>worst!.title\<close> when \<open>worst\<close> is still \<^verbatim>\<open>undefined\<close>.\<close>

definition TypeError :: thrown where
  "TypeError = OtherError ''TypeError'' None"

text \<open>
  The body of the loop over \<open>apis\<close>, for one site. \<open>net\<close> answers the requests to this site.
  \<open>failures\<close> is the \<^verbatim>\<open>Map\<close>, in insertion order.
\<close>

definition site_body ::
  "(nat \<Rightarrow> string \<Rightarrow> (string \<times> string) list \<Rightarrow> thrown + MediaWikiResponse) \<Rightarrow>
   (string \<Rightarrow> thrown + unit) \<Rightarrow> (nat \<Rightarrow> rat) \<Rightarrow> nat \<Rightarrow> string option \<Rightarrow> string \<times> string \<Rightarrow>
   (string \<times> nat) list \<times> state \<Rightarrow> (string \<times> nat) list \<times> state" where
  "site_body net parse dur retry grclimit api fs =
     (case api of (site, url) \<Rightarrow>
      case fs of (failures, st) \<Rightarrow>
        (case fetch_loop net parse dur url site grclimit retry 0 (0, 0, None) (reset (log (LogStart site) st)) of
           (Inl e, st1) \<Rightarrow> (failures, log (ErrApi site e) st1)
         | (Inr (failed, i, worst), st1) \<Rightarrow>
             (let failures1 = (if failed \<noteq> 0 then AList.update site failed failures else failures)
              in case worst of
                   None \<Rightarrow> (failures1, log (ErrApi site TypeError) st1)
                 | Some (t, d) \<Rightarrow> (failures1, log (LogWorst t d) st1))))"

fun sites_loop ::
  "(string \<Rightarrow> nat \<Rightarrow> string \<Rightarrow> (string \<times> string) list \<Rightarrow> thrown + MediaWikiResponse) \<Rightarrow>
   (string \<Rightarrow> thrown + unit) \<Rightarrow> (string \<Rightarrow> nat \<Rightarrow> rat) \<Rightarrow> nat \<Rightarrow> string option \<Rightarrow> (string \<times> string) list \<Rightarrow>
   (string \<times> nat) list \<times> state \<Rightarrow> (string \<times> nat) list \<times> state" where
  "sites_loop net parse dur retry grclimit [] fs = fs"
| "sites_loop net parse dur retry grclimit (api # rest) fs =
     sites_loop net parse dur retry grclimit rest
       (site_body (net (fst api)) parse (dur (fst api)) retry grclimit api fs)"

text \<open>The loop over the entries of \<open>failures\<close> that adds up \<open>total\<close>.\<close>

fun sum_failures :: "(string \<times> nat) list \<Rightarrow> nat \<times> state \<Rightarrow> nat \<times> state" where
  "sum_failures [] ts = ts"
| "sum_failures ((site, failed) # rest) (tot, st) =
     sum_failures rest (tot + failed, log (ErrSite site failed) st)"

definition failure_message :: "nat \<Rightarrow> string" where
  "failure_message n =
     [CHR 0xE5, CHR 0x85, CHR 0xB1, CHR 0xE6, CHR 0x9C, CHR 0x89, CHR 0x20] @ show_nat n @
     [CHR 0x20, CHR 0xE4, CHR 0xB8, CHR 0xAA, CHR 0xE9, CHR 0xA1, CHR 0xB5, CHR 0xE9, CHR 0x9D,
      CHR 0xA2, CHR 0xE8, CHR 0xA7, CHR 0xA3, CHR 0xE6, CHR 0x9E, CHR 0x90, CHR 0xE5, CHR 0xA4,
      CHR 0xB1, CHR 0xE8, CHR 0xB4, CHR 0xA5, CHR 0xEF, CHR 0xBC, CHR 0x81]"

text \<open>\<open>execute\<close> over a list of sites; an absent \<open>retry\<close> is 10.\<close>

definition execute_on ::
  "(string \<times> string) list \<Rightarrow>
   (string \<Rightarrow> nat \<Rightarrow> string \<Rightarrow> (string \<times> string) list \<Rightarrow> thrown + MediaWikiResponse) \<Rightarrow>
   (string \<Rightarrow> thrown + unit) \<Rightarrow> (string \<Rightarrow> nat \<Rightarrow> rat) \<Rightarrow> nat option \<Rightarrow> string option \<Rightarrow>
   state \<Rightarrow> (thrown + unit) \<times> state" where
  "execute_on sites net parse dur retry grclimit st =
     (case sites_loop net parse dur (case retry of None \<Rightarrow> 10 | Some r \<Rightarrow> r) grclimit sites ([], st) of
        (failures, st1) \<Rightarrow>
          if length failures > 0
          then (case sum_failures failures (0, st1) of
                  (tot, st2) \<Rightarrow> (Inl (OtherError (failure_message tot) None), st2))
          else (Inr (), st1))"

definition execute ::
  "(string \<Rightarrow> nat \<Rightarrow> string \<Rightarrow> (string \<times> string) list \<Rightarrow> thrown + MediaWikiResponse) \<Rightarrow>
   (string \<Rightarrow> thrown + unit) \<Rightarrow> (string \<Rightarrow> nat \<Rightarrow> rat) \<Rightarrow> nat option \<Rightarrow> string option \<Rightarrow>
   state \<Rightarrow> (thrown + unit) \<times> state" where
  "execute = execute_on apis"

section \<open>\<open>mochaTest\<close>\<close>

text \<open>
  What the callback given to \<^verbatim>\<open>it\<close> closes over: the index \<open>i\<close>, the object \<open>test\<close>, and the
  \<open>wikitext\<close> and \<open>desc\<close> read from it when the test was registered.
\<close>

record closure =
  cl_i :: nat
  cl_test :: nat
  cl_wikitext :: string
  cl_desc :: string

text \<open>
  The loop \<^verbatim>\<open>for (let i = tests.length - 1; i >= 0; i--)\<close>, the argument being \<open>i + 1\<close>:
  the closures in the order they are registered.
\<close>

fun register :: "state \<Rightarrow> nat \<Rightarrow> closure list" where
  "register st 0 = []"
| "register st (Suc i) =
     (let test = tests st ! i;
          w = wikitext (objs st ! test);
          d = desc (objs st ! test)
      in (if truthy w
          then [\<lparr>cl_i = i, cl_test = test, cl_wikitext = (case w of Some s \<Rightarrow> s | None \<Rightarrow> []), cl_desc = d\<rparr>]
          else []) @ register st i)"

text \<open>\<^verbatim>\<open>tests.splice(i, 1)\<close>\<close>

definition splice1 :: "nat \<Rightarrow> 'a list \<Rightarrow> 'a list" where
  "splice1 i xs = take i xs @ drop (Suc i) xs"

text \<open>\<^verbatim>\<open>Object.assign(e, {cause: {message: `\n${wikitext}`}})\<close>, done when \<open>e\<close> is an \<^verbatim>\<open>Error\<close>.\<close>

fun annotate :: "string \<Rightarrow> thrown \<Rightarrow> thrown" where
  "annotate w (AssertionError actual expected cause) = AssertionError actual expected (Some (nl @ w))"
| "annotate w (OtherError msg cause) = OtherError msg (Some (nl @ w))"
| "annotate w (NonError v) = NonError v"

text \<open>The \<^verbatim>\<open>catch\<close> block: the value thrown on, and the state.\<close>

definition catch_block :: "closure \<Rightarrow> thrown \<Rightarrow> state \<Rightarrow> thrown option \<times> state" where
  "catch_block cl e st =
     (Some (if is_Error e then annotate (cl_wikitext cl) e else e),
      if \<not> is_AssertionError e then st\<lparr>tests := splice1 (cl_i cl) (tests st)\<rparr> else st)"

text \<open>
  The callback given to \<^verbatim>\<open>it\<close>: \<open>None\<close> when it returns, the value it throws otherwise.
  \<^verbatim>\<open>assert.deepStrictEqual\<close> on two values that are an array of strings or \<^verbatim>\<open>undefined\<close> each
  throws an \<open>AssertionError\<close> exactly when they differ.
\<close>

definition run_it ::
  "'a TestResult_scheme list \<Rightarrow> (string \<Rightarrow> thrown + string) \<Rightarrow> closure \<Rightarrow> state \<Rightarrow> thrown option \<times> state" where
  "run_it results parse cl st =
     (let t = cl_test cl;
          st1 = st\<lparr>objs := (objs st)[t := (objs st ! t)\<lparr>html := None, print := None, render := None,
                                                          Test.title := None\<rparr>]\<rparr>
      in case parse (cl_wikitext cl) of
           Inl e \<Rightarrow> catch_block cl e st1
         | Inr p \<Rightarrow>
             (let st2 = st1\<lparr>objs := (objs st1)[t := (objs st1 ! t)\<lparr>parsed := Some p\<rparr>]\<rparr>;
                  actual = split (Some (objs st2 ! t));
                  expected = split (find (\<lambda>r. desc r = cl_desc cl) results)
              in if actual = expected then (None, st2)
                 else catch_block cl (AssertionError actual expected None) st2))"

text \<open>The runner calls the callbacks in the order of registration.\<close>

fun run_its ::
  "'a TestResult_scheme list \<Rightarrow> (string \<Rightarrow> thrown + string) \<Rightarrow> closure list \<Rightarrow> state \<Rightarrow>
   (string \<times> thrown option) list \<times> state" where
  "run_its results parse [] st = ([], st)"
| "run_its results parse (cl # cls) st =
     (case run_it results parse cl st of
        (out, st1) \<Rightarrow>
          (case run_its results parse cls st1 of
             (outs, st2) \<Rightarrow> ((cl_desc cl, out) # outs, st2)))"

text \<open>What the \<^verbatim>\<open>after\<close> hook serializes: the objects of \<open>tests\<close>, in order.\<close>

definition corpus :: "state \<Rightarrow> Test list" where
  "corpus st = map (\<lambda>r. objs st ! r) (tests st)"

text \<open>
  \<open>mochaTest\<close>: the tests registered, their outcomes when the runner has called them all, the
  state then, and the corpus written by the \<^verbatim>\<open>after\<close> hook. \<open>beforeFn\<close> belongs to the caller and
  is not part of the model.
\<close>

definition mochaTest ::
  "'a TestResult_scheme list \<Rightarrow> (string \<Rightarrow> thrown + string) \<Rightarrow> state \<Rightarrow>
   (string \<times> thrown option) list \<times> state \<times> Test list" where
  "mochaTest results parse st =
     (case run_its results parse (register st (length (tests st))) st of
        (outs, st1) \<Rightarrow> (outs, st1, corpus st1))"

text \<open>The module just loaded: \<^verbatim>\<open>tests\<close> holds the objects of the corpus file, one each.\<close>

definition loaded :: "Test list \<Rightarrow> state" where
  "loaded ts = \<lparr>c = None, tests = [0..<length ts], objs = ts, console = []\<rparr>"

section \<open>Notions used in the statements\<close>




text \<open>\<^verbatim>\<open>e.cause.message\<close> of a thrown value.\<close>

fun cause_message :: "thrown \<Rightarrow> string option" where
  "cause_message (AssertionError actual expected cause) = cause"
| "cause_message (OtherError msg cause) = cause"
| "cause_message (NonError v) = None"



section \<open>The run of \<open>mochaTest\<close> in closed form\<close>

text \<open>
  The run of \<open>mochaTest\<close> on a corpus \<open>ts\<close> just loaded, entry by entry: what the four
  \<^verbatim>\<open>delete\<close>s leave of a test; what the \<^verbatim>\<open>try\<close> block throws, if anything; the test after its
  callback has run; the value thrown on by the \<^verbatim>\<open>catch\<close> block; and whether the entry is spliced out.
  Entry \<open>j\<close> gets a callback when its \<open>wikitext\<close> is truthy.
\<close>

definition scrub :: "Test \<Rightarrow> Test" where
  "scrub t = t\<lparr>html := None, print := None, render := None, Test.title := None\<rparr>"

definition try_outcome :: "'a TestResult_scheme list \<Rightarrow> (string \<Rightarrow> thrown + string) \<Rightarrow> string \<Rightarrow> string \<Rightarrow> thrown option" where
  "try_outcome results parse w d =
     (case parse w of
        Inl e \<Rightarrow> Some e
      | Inr p \<Rightarrow>
          if Some (split_str p) = split (find (\<lambda>r. desc r = d) results) then None
          else Some (AssertionError (Some (split_str p)) (split (find (\<lambda>r. desc r = d) results)) None))"

definition evaluated :: "(string \<Rightarrow> thrown + string) \<Rightarrow> string \<Rightarrow> Test \<Rightarrow> Test" where
  "evaluated parse w t = (case parse w of Inl e \<Rightarrow> scrub t | Inr p \<Rightarrow> (scrub t)\<lparr>parsed := Some p\<rparr>)"

definition rethrown :: "string \<Rightarrow> thrown \<Rightarrow> thrown" where
  "rethrown w e = (if is_Error e then annotate w e else e)"

definition pruned :: "'a TestResult_scheme list \<Rightarrow> (string \<Rightarrow> thrown + string) \<Rightarrow> string \<Rightarrow> string \<Rightarrow> bool" where
  "pruned results parse w d =
     (case try_outcome results parse w d of None \<Rightarrow> False | Some e \<Rightarrow> \<not> is_AssertionError e)"

definition executable :: "Test list \<Rightarrow> nat \<Rightarrow> bool" where
  "executable ts j = truthy (wikitext (ts ! j))"

definition closure_of :: "Test list \<Rightarrow> nat \<Rightarrow> closure" where
  "closure_of ts j =
     \<lparr>cl_i = j, cl_test = j,
      cl_wikitext = (case wikitext (ts ! j) of Some s \<Rightarrow> s | None \<Rightarrow> []),
      cl_desc = desc (ts ! j)\<rparr>"

definition gone :: "'a TestResult_scheme list \<Rightarrow> (string \<Rightarrow> thrown + string) \<Rightarrow> Test list \<Rightarrow> nat \<Rightarrow> bool" where
  "gone results parse ts j =
     (executable ts j \<and> pruned results parse (cl_wikitext (closure_of ts j)) (cl_desc (closure_of ts j)))"

definition reported :: "'a TestResult_scheme list \<Rightarrow> (string \<Rightarrow> thrown + string) \<Rightarrow> Test list \<Rightarrow> nat \<Rightarrow> string \<times> thrown option" where
  "reported results parse ts j =
     (desc (ts ! j),
      map_option (rethrown (cl_wikitext (closure_of ts j)))
        (try_outcome results parse (cl_wikitext (closure_of ts j)) (cl_desc (closure_of ts j))))"

definition rewritten :: "(string \<Rightarrow> thrown + string) \<Rightarrow> Test list \<Rightarrow> nat \<Rightarrow> Test" where
  "rewritten parse ts j =
     (if executable ts j then evaluated parse (cl_wikitext (closure_of ts j)) (ts ! j) else ts ! j)"

section \<open>Concrete inputs\<close>

text \<open>A page whose first revision is JSON and whose second is wikitext, and a plain wikitext page.\<close>

definition page_json_then_wikitext :: MediaWikiPage where
  "page_json_then_wikitext =
     \<lparr>pageid = 7, title = ''Data'', ns = 0,
      revisions = Some [\<lparr>revision.content = ''{}'', contentmodel = ''json''\<rparr>,
                        \<lparr>revision.content = ''text'', contentmodel = ''wikitext''\<rparr>]\<rparr>"

definition page_wikitext :: MediaWikiPage where
  "page_wikitext =
     \<lparr>pageid = 8, title = ''Main'', ns = 0,
      revisions = Some [\<lparr>revision.content = ''text'', contentmodel = ''wikitext''\<rparr>]\<rparr>"

text \<open>A state that holds a continuation token.\<close>

definition state_with_token :: state where
  "state_with_token = \<lparr>c = Some [(''grccontinue'', ''20261101|5'')], tests = [0], objs = [], console = []\<rparr>"

text \<open>
  A parser that throws on \<^verbatim>\<open>{{\<close> and wraps anything else; a corpus with a test whose expectation
  is out of date, a test with empty wikitext and a test the parser throws on; the expectations
  on file; and a corpus with one description used twice.
\<close>

definition parse_demo :: "string \<Rightarrow> thrown + string" where
  "parse_demo w = (if w = ''{{'' then Inl (OtherError ''unclosed'' None) else Inr (''<p>'' @ w @ ''</>''))"

definition corpus_demo :: "Test list" where
  "corpus_demo =
     [\<lparr>desc = ''plain'', wikitext = Some ''a'', parsed = Some ''old'',
       Test.title = Some ''T'', html = Some ''<p>a</p>'', print = None, render = None\<rparr>,
      \<lparr>desc = ''disabled'', wikitext = Some [], parsed = None,
       Test.title = Some ''T2'', html = Some ''h'', print = Some ''p'', render = Some ''r''\<rparr>,
      \<lparr>desc = ''crash'', wikitext = Some ''{{'', parsed = Some ''x'',
       Test.title = None, html = None, print = None, render = None\<rparr>]"

definition results_demo :: "TestResult list" where
  "results_demo =
     [\<lparr>desc = ''plain'', wikitext = Some ''a'', parsed = Some ''old''\<rparr>,
      \<lparr>desc = ''crash'', wikitext = Some ''{{'', parsed = Some ''x''\<rparr>]"


text \<open>
  A page the parser throws on and one it accepts; a network whose second answer to the site
  \<^verbatim>\<open>Wikipedia\<close> is a failure, after a first answer with the page the parser throws on; the same
  network without the failure; and that parser.
\<close>

definition broken_page :: MediaWikiPage where
  "broken_page =
     \<lparr>pageid = 1, title = ''Broken'', ns = 0,
      revisions = Some [\<lparr>revision.content = ''{{'', contentmodel = ''wikitext''\<rparr>]\<rparr>"

definition fine_page :: MediaWikiPage where
  "fine_page =
     \<lparr>pageid = 2, title = ''Fine'', ns = 0,
      revisions = Some [\<lparr>revision.content = ''ok'', contentmodel = ''wikitext''\<rparr>]\<rparr>"

definition net_fails_second ::
  "string \<Rightarrow> nat \<Rightarrow> string \<Rightarrow> (string \<times> string) list \<Rightarrow> thrown + MediaWikiResponse" where
  "net_fails_second site j url q =
     (if site = ''Wikipedia'' \<and> j = 0 then Inr \<lparr>query_pages = [broken_page], continue = None\<rparr>
      else if site = ''Wikipedia'' then Inl (OtherError ''fetch failed'' None)
      else Inr \<lparr>query_pages = [fine_page], continue = None\<rparr>)"

definition net_answers ::
  "string \<Rightarrow> nat \<Rightarrow> string \<Rightarrow> (string \<times> string) list \<Rightarrow> thrown + MediaWikiResponse" where
  "net_answers site j url q =
     (if site = ''Wikipedia'' \<and> j = 0 then Inr \<lparr>query_pages = [broken_page], continue = None\<rparr>
      else Inr \<lparr>query_pages = [fine_page], continue = None\<rparr>)"

definition parse_rejects_braces :: "string \<Rightarrow> thrown + unit" where
  "parse_rejects_braces w = (if w = ''{{'' then Inl (OtherError ''unclosed'' None) else Inr ())"

section \<open>Properties of the reporter\<close>


lemma state_after_append:
  "state_after st (xs @ ys) = state_after (state_after st xs) ys"
  by (induction xs arbitrary: st) auto

lemma step_yields: "(snd (step st e) \<noteq> None) = yields e"
  by (cases e) (auto simp: Let_def)

lemma length_fragments: "length (fragments st es) = length (filter yields es)"
proof (induction es arbitrary: st)
  case Nil
  show ?case by simp
next
  case (Cons e es)
  obtain st' y where s: "step st e = (st', y)" by (cases "step st e")
  with step_yields [of st e] have "(y \<noteq> None) = yields e" by simp
  with s Cons show ?case by (auto split: option.splits)
qed









text \<open>
  Claim C4, as amended. The generator yields one fragment for each \<^verbatim>\<open>test:complete\<close>,
  \<^verbatim>\<open>test:start\<close> and \<^verbatim>\<open>test:fail\<close> event and for each \<^verbatim>\<open>test:summary\<close> event whose \<^verbatim>\<open>file\<close> is
  absent or empty; it yields nothing for a \<^verbatim>\<open>test:summary\<close> with a file marker or for an event
  of another type. So the number of fragments is the number of events of the first kind, and
  never more than the number of events consumed.
\<close>

theorem C4_fragments_counted:
  "length (reporter source) = length (filter yields source) \<and>
   length (reporter source) \<le> length source"
  by (simp add: reporter_def length_fragments)

text \<open>
  Claim C4 as stated fails: a \<^verbatim>\<open>test:summary\<close> with a file marker followed by an event of
  unrecognized type are two events, and no fragment is yielded.
\<close>

theorem C4_counterexample:
  "length (reporter [TestSummary 3 0 1 (127 / 10) (Some ''test/a.js''), OtherEvent ''test:pass''])
   \<noteq> length [TestSummary 3 0 1 (127 / 10) (Some ''test/a.js''), OtherEvent ''test:pass'']"
  by (simp add: reporter_def truthy_def)




section \<open>Properties of \<open>split\<close>\<close>





















section \<open>Properties of \<open>getPages\<close> and \<open>reset\<close>\<close>

lemma map_of_spread: "map_of (spread base ext) = map_of base ++ map_of (rev ext)"
  unfolding spread_def
proof (induction ext arbitrary: base)
  case Nil
  show ?case by simp
next
  case (Cons x xs)
  obtain k v where x: "x = (k, v)" by (cases x)
  show ?case
    by (simp add: x Cons update_conv' map_add_upd_left fun_eq_iff map_add_def split: option.splits)
qed

lemma pages_of_Nil: "pages_of [] = []"
  by (simp add: pages_of_def)

lemma pages_of_Cons:
  "pages_of (pg # pgs) =
     (case revisions pg of
        Some (r # rest) \<Rightarrow>
          if contentmodel r = ''wikitext''
          then [\<lparr>pageid = pageid pg, title = page_core.title pg, ns = ns pg, content = revision.content r\<rparr>]
          else []
      | _ \<Rightarrow> []) @ pages_of pgs"
  by (simp add: pages_of_def map_page_def as_SimplePage_def first_wikitext_def
      split: option.splits list.splits)

lemma pages_of_concat:
  "pages_of pgs =
     concat (map (\<lambda>pg. case revisions pg of
        Some (r # rest) \<Rightarrow>
          if contentmodel r = ''wikitext''
          then [\<lparr>pageid = pageid pg, title = page_core.title pg, ns = ns pg, content = revision.content r\<rparr>]
          else []
      | _ \<Rightarrow> []) pgs)"
  by (induction pgs) (simp_all add: pages_of_Nil pages_of_Cons)

lemma getPages_Inr:
  "fetch url (qs (c st) site (case grclimit of None \<Rightarrow> ''max'' | Some l \<Rightarrow> l)) = Inr response \<Longrightarrow>
   getPages fetch url site grclimit st = (Inr (pages_of (query_pages response)), st\<lparr>c := continue response\<rparr>)"
  by (simp add: getPages_def)

lemma getPages_Inl:
  "fetch url (qs (c st) site (case grclimit of None \<Rightarrow> ''max'' | Some l \<Rightarrow> l)) = Inl e \<Longrightarrow>
   getPages fetch url site grclimit st = (Inl e, st)"
  by (simp add: getPages_def)

text \<open>
  Claim C6, as amended. A call of \<open>getPages\<close> that gets a response returns, for each raw page in
  order, one record with the page's id, title, namespace and the content of its first revision
  when the page has a first revision whose content model is exactly \<^verbatim>\<open>wikitext\<close>, and nothing for
  any other page; no page makes the call fail.
\<close>

theorem C6_first_revision_only:
  "fetch url (qs (c st) site (case grclimit of None \<Rightarrow> ''max'' | Some l \<Rightarrow> l)) = Inr response \<Longrightarrow>
   fst (getPages fetch url site grclimit st) =
     Inr (concat (map (\<lambda>pg. case revisions pg of
        Some (r # rest) \<Rightarrow>
          if contentmodel r = ''wikitext''
          then [\<lparr>pageid = pageid pg, title = page_core.title pg, ns = ns pg, content = revision.content r\<rparr>]
          else []
      | _ \<Rightarrow> []) (query_pages response)))"
  using pages_of_concat [of "query_pages response"] by (simp add: getPages_Inr)

theorem C6_first_revision_only_witness:
  "fst (getPages (\<lambda>u q. Inr \<lparr>query_pages = [page_json_then_wikitext, page_wikitext], continue = None\<rparr>)
         ''https://en.wikipedia.org/w/api.php'' None None
         \<lparr>c = None, tests = [], objs = [], console = []\<rparr>)
   = Inr [\<lparr>pageid = 8, title = ''Main'', ns = 0, content = ''text''\<rparr>]"
  using C6_first_revision_only [of "\<lambda>u q. Inr \<lparr>query_pages = [page_json_then_wikitext, page_wikitext], continue = None\<rparr>"
      "''https://en.wikipedia.org/w/api.php''" "\<lparr>c = None, tests = [], objs = [], console = []\<rparr>" None None
      "\<lparr>query_pages = [page_json_then_wikitext, page_wikitext], continue = None\<rparr>"]
  by (simp add: page_json_then_wikitext_def page_wikitext_def)

text \<open>
  Claim C6 as stated fails: a page whose second revision is wikitext has a revision with that
  content model, and is dropped.
\<close>

theorem C6_counterexample:
  "\<lparr>revision.content = ''text'', contentmodel = ''wikitext''\<rparr> \<in> set (the (revisions page_json_then_wikitext))
   \<and> fst (getPages (\<lambda>u q. Inr \<lparr>query_pages = [page_json_then_wikitext], continue = None\<rparr>)
         ''https://en.wikipedia.org/w/api.php'' None None
         \<lparr>c = None, tests = [], objs = [], console = []\<rparr>) = Inr []"
  by (simp add: page_json_then_wikitext_def getPages_def pages_of_def map_page_def first_wikitext_def)

lemma getPages_frame:
  "tests (snd (getPages fetch url site grclimit st)) = tests st
   \<and> objs (snd (getPages fetch url site grclimit st)) = objs st
   \<and> console (snd (getPages fetch url site grclimit st)) = console st"
  by (simp add: getPages_def split: sum.splits)

text \<open>
  Claim C9. Whatever the outcome, \<open>getPages\<close> leaves \<open>tests\<close>, the test objects and the console as
  they were. When the request is answered, the token becomes the \<^verbatim>\<open>continue\<close> of the response,
  absent when the response has none, whatever it was before; when the request throws, the state
  is unchanged. \<open>reset\<close> makes the token absent. The request is made with the parameters
  \<open>qs (c st)\<close>, and these hold every entry of the token.
\<close>

theorem C9_continuation_token:
  "tests (snd (getPages fetch url site grclimit st)) = tests st
   \<and> objs (snd (getPages fetch url site grclimit st)) = objs st
   \<and> console (snd (getPages fetch url site grclimit st)) = console st
   \<and> (fetch url (qs (c st) site (case grclimit of None \<Rightarrow> ''max'' | Some l \<Rightarrow> l)) = Inr response \<longrightarrow>
        getPages fetch url site grclimit st =
          (Inr (pages_of (query_pages response)), st\<lparr>c := continue response\<rparr>))
   \<and> (fetch url (qs (c st) site (case grclimit of None \<Rightarrow> ''max'' | Some l \<Rightarrow> l)) = Inl e \<longrightarrow>
        getPages fetch url site grclimit st = (Inl e, st))
   \<and> reset st = st\<lparr>c := None\<rparr>
   \<and> (\<forall>fetch2. fetch2 url (qs (c st) site (case grclimit of None \<Rightarrow> ''max'' | Some l \<Rightarrow> l))
             = fetch url (qs (c st) site (case grclimit of None \<Rightarrow> ''max'' | Some l \<Rightarrow> l)) \<longrightarrow>
        getPages fetch2 url site grclimit st = getPages fetch url site grclimit st)
   \<and> map_of (qs (Some m) site glim) = map_of (qs None site glim) ++ map_of (rev m)
   \<and> (distinct (map fst m) \<and> (k, v) \<in> set m \<longrightarrow> map_of (qs (Some m) site glim) k = Some v)"
proof -
  have m: "map_of (qs (Some m) site glim) = map_of (qs None site glim) ++ map_of (rev m)"
    by (simp add: qs_def map_of_spread)
  have "distinct (map fst m) \<and> (k, v) \<in> set m \<longrightarrow> map_of (rev m) k = Some v"
    by (metis map_of_is_SomeI distinct_rev rev_map set_rev)
  with m have d: "distinct (map fst m) \<and> (k, v) \<in> set m \<longrightarrow> map_of (qs (Some m) site glim) k = Some v"
    by (simp add: map_add_def)
  have g: "\<forall>fetch2. fetch2 url (qs (c st) site (case grclimit of None \<Rightarrow> ''max'' | Some l \<Rightarrow> l))
             = fetch url (qs (c st) site (case grclimit of None \<Rightarrow> ''max'' | Some l \<Rightarrow> l)) \<longrightarrow>
        getPages fetch2 url site grclimit st = getPages fetch url site grclimit st"
    by (simp add: getPages_def)
  have a: "fetch url (qs (c st) site (case grclimit of None \<Rightarrow> ''max'' | Some l \<Rightarrow> l)) = Inr response \<longrightarrow>
      getPages fetch url site grclimit st =
          (Inr (pages_of (query_pages response)), st\<lparr>c := continue response\<rparr>)"
    by (simp add: getPages_Inr)
  have b: "fetch url (qs (c st) site (case grclimit of None \<Rightarrow> ''max'' | Some l \<Rightarrow> l)) = Inl e \<longrightarrow>
      getPages fetch url site grclimit st = (Inl e, st)"
    by (simp add: getPages_Inl)
  have r: "reset st = st\<lparr>c := None\<rparr>"
    by (simp add: reset_def)
  note fr = getPages_frame [of fetch url site grclimit st]
  from fr [THEN conjunct1] fr [THEN conjunct2, THEN conjunct1] fr [THEN conjunct2, THEN conjunct2]
    a b r g m d
  show ?thesis by (intro conjI)
qed

theorem C9_continuation_token_witness:
  "getPages (\<lambda>u q. Inr \<lparr>query_pages = [], continue = Some [(''grccontinue'', ''20261102|9'')]\<rparr>)
      ''https://en.wikipedia.org/w/api.php'' None None state_with_token
     = (Inr [], state_with_token\<lparr>c := Some [(''grccontinue'', ''20261102|9'')]\<rparr>)
   \<and> getPages (\<lambda>u q. Inr \<lparr>query_pages = [], continue = None\<rparr>)
      ''https://en.wikipedia.org/w/api.php'' None None state_with_token
     = (Inr [], state_with_token\<lparr>c := None\<rparr>)
   \<and> getPages (\<lambda>u q. Inl (OtherError ''fetch failed'' None))
      ''https://en.wikipedia.org/w/api.php'' None None state_with_token
     = (Inl (OtherError ''fetch failed'' None), state_with_token)
   \<and> map_of (qs (c state_with_token) None ''max'') ''grccontinue'' = Some ''20261101|5''"
proof -
  note ok = C9_continuation_token [where fetch = "\<lambda>u q. Inr \<lparr>query_pages = [], continue = Some [(''grccontinue'', ''20261102|9'')]\<rparr>"
      and url = "''https://en.wikipedia.org/w/api.php''" and site = None and grclimit = None
      and st = state_with_token
      and response = "\<lparr>query_pages = [], continue = Some [(''grccontinue'', ''20261102|9'')]\<rparr>"
      and m = "[(''grccontinue'', ''20261101|5'')]" and k = "''grccontinue''" and v = "''20261101|5''"
      and glim = "''max''"]
  note ok2 = C9_continuation_token [where fetch = "\<lambda>u q. Inr \<lparr>query_pages = [], continue = None\<rparr>"
      and url = "''https://en.wikipedia.org/w/api.php''" and site = None and grclimit = None
      and st = state_with_token
      and response = "\<lparr>query_pages = [], continue = None\<rparr>"]
  note bad = C9_continuation_token [where fetch = "\<lambda>u q. Inl (OtherError ''fetch failed'' None)"
      and url = "''https://en.wikipedia.org/w/api.php''" and site = None and grclimit = None
      and st = state_with_token and e = "OtherError ''fetch failed'' None"]
  have 1: "getPages (\<lambda>u q. Inr \<lparr>query_pages = [], continue = Some [(''grccontinue'', ''20261102|9'')]\<rparr>)
      ''https://en.wikipedia.org/w/api.php'' None None state_with_token
     = (Inr [], state_with_token\<lparr>c := Some [(''grccontinue'', ''20261102|9'')]\<rparr>)"
    using ok [THEN conjunct2, THEN conjunct2, THEN conjunct2, THEN conjunct1]
    by (simp add: pages_of_Nil)
  have 2: "getPages (\<lambda>u q. Inr \<lparr>query_pages = [], continue = None\<rparr>)
      ''https://en.wikipedia.org/w/api.php'' None None state_with_token
     = (Inr [], state_with_token\<lparr>c := None\<rparr>)"
    using ok2 [THEN conjunct2, THEN conjunct2, THEN conjunct2, THEN conjunct1]
    by (simp add: pages_of_Nil)
  have 3: "getPages (\<lambda>u q. Inl (OtherError ''fetch failed'' None))
      ''https://en.wikipedia.org/w/api.php'' None None state_with_token
     = (Inl (OtherError ''fetch failed'' None), state_with_token)"
    using bad [THEN conjunct2, THEN conjunct2, THEN conjunct2, THEN conjunct2, THEN conjunct1]
    by simp
  have 4: "map_of (qs (c state_with_token) None ''max'') ''grccontinue'' = Some ''20261101|5''"
    using ok [THEN conjunct2, THEN conjunct2, THEN conjunct2, THEN conjunct2, THEN conjunct2,
        THEN conjunct2, THEN conjunct2, THEN conjunct2]
    by (simp add: state_with_token_def)
  from 1 2 3 4 show ?thesis by (intro conjI)
qed

section \<open>Properties of \<open>mochaTest\<close>\<close>

lemma run_it_eq:
  assumes "cl_test cl < length (objs st)"
  shows "run_it results parse cl st =
     (map_option (rethrown (cl_wikitext cl)) (try_outcome results parse (cl_wikitext cl) (cl_desc cl)),
      st\<lparr>objs := (objs st)[cl_test cl := evaluated parse (cl_wikitext cl) (objs st ! cl_test cl)],
         tests := (if pruned results parse (cl_wikitext cl) (cl_desc cl)
                   then splice1 (cl_i cl) (tests st) else tests st)\<rparr>)"
proof (cases "parse (cl_wikitext cl)")
  case (Inl e)
  then show ?thesis
    by (simp add: run_it_def catch_block_def try_outcome_def evaluated_def rethrown_def
        pruned_def scrub_def Let_def)
next
  case (Inr p)
  then show ?thesis using assms
    by (simp add: run_it_def catch_block_def try_outcome_def evaluated_def rethrown_def
        pruned_def scrub_def Let_def split_def)
qed


lemma register_loaded:
  "k \<le> length ts \<Longrightarrow>
   register (loaded ts) k = map (closure_of ts) (filter (executable ts) (rev [0..<k]))"
proof (induction k)
  case 0
  show ?case by simp
next
  case (Suc k)
  then have "tests (loaded ts) ! k = k" by (simp add: loaded_def)
  with Suc show ?case
    by (simp add: Let_def closure_of_def executable_def loaded_def)
qed

lemma run_its_closures:
  assumes "length (objs st) = length ts" and "k \<le> length ts" and "take k (tests st) = [0..<k]"
    and "\<forall>j<k. objs st ! j = ts ! j"
  shows "\<exists>st'. run_its results parse (map (closure_of ts) (filter (executable ts) (rev [0..<k]))) st =
           (map (reported results parse ts) (filter (executable ts) (rev [0..<k])), st')
         \<and> tests st' = filter (\<lambda>j. \<not> gone results parse ts j) [0..<k] @ drop k (tests st)
         \<and> length (objs st') = length ts
         \<and> (\<forall>j<length ts. objs st' ! j = (if j < k then rewritten parse ts j else objs st ! j))
         \<and> c st' = c st \<and> console st' = console st"
  using assms
proof (induction k arbitrary: st)
  case 0
  then show ?case by simp
next
  case (Suc k)
  from Suc.prems(3) have len: "Suc k \<le> length (tests st)"
    by (metis length_take length_upt min.cobounded1 diff_zero)
  from Suc.prems(3) have tk: "take k (tests st) = [0..<k]"
    by (metis take_upt add_0 le_add2 plus_1_eq_Suc take_take min.absorb1 le_add1 le_SucI order_refl)
  from Suc.prems(3) len have nk: "tests st ! k = k"
    by (metis lessI nth_take nth_upt add_0)
  have dk: "drop k (tests st) = k # drop (Suc k) (tests st)"
    using len nk by (metis Cons_nth_drop_Suc Suc_le_lessD)
  show ?case
  proof (cases "executable ts k")
    case False
    from Suc.prems have "\<forall>j<k. objs st ! j = ts ! j" by simp
    with Suc.IH [of st] Suc.prems(1,2) tk
    obtain st' where st': "run_its results parse (map (closure_of ts) (filter (executable ts) (rev [0..<k]))) st =
           (map (reported results parse ts) (filter (executable ts) (rev [0..<k])), st')"
         "tests st' = filter (\<lambda>j. \<not> gone results parse ts j) [0..<k] @ drop k (tests st)"
         "length (objs st') = length ts"
         "\<forall>j<length ts. objs st' ! j = (if j < k then rewritten parse ts j else objs st ! j)"
         "c st' = c st" "console st' = console st"
      by auto
    have "objs st ! k = rewritten parse ts k"
      using False Suc.prems(4) by (simp add: rewritten_def)
    with st'(4) have "\<forall>j<length ts. objs st' ! j = (if j < Suc k then rewritten parse ts j else objs st ! j)"
      by (auto simp: less_Suc_eq)
    with st' False dk show ?thesis
      by (simp add: gone_def)
  next
    case True
    let ?cl = "closure_of ts k"
    let ?st1 = "st\<lparr>objs := (objs st)[k := evaluated parse (cl_wikitext ?cl) (objs st ! k)],
         tests := (if pruned results parse (cl_wikitext ?cl) (cl_desc ?cl)
                   then splice1 k (tests st) else tests st)\<rparr>"
    have kl: "k < length (objs st)" using Suc.prems(1,2) by simp
    have r1: "run_it results parse ?cl st =
        (map_option (rethrown (cl_wikitext ?cl)) (try_outcome results parse (cl_wikitext ?cl) (cl_desc ?cl)), ?st1)"
      using run_it_eq [of ?cl st results parse] kl by (simp add: closure_of_def)
    have t1: "take k (tests ?st1) = [0..<k]"
      using tk by (simp add: splice1_def)
    have d1: "drop k (tests ?st1) = (if gone results parse ts k then [] else [k]) @ drop (Suc k) (tests st)"
      using True dk len by (simp add: splice1_def gone_def)
    have o1: "\<forall>j<k. objs ?st1 ! j = ts ! j"
      using Suc.prems(4) by simp
    have l1: "length (objs ?st1) = length ts" using Suc.prems(1) by simp
    from Suc.IH [of ?st1] l1 Suc.prems(2) t1 o1
    obtain st' where st': "run_its results parse (map (closure_of ts) (filter (executable ts) (rev [0..<k]))) ?st1 =
           (map (reported results parse ts) (filter (executable ts) (rev [0..<k])), st')"
         "tests st' = filter (\<lambda>j. \<not> gone results parse ts j) [0..<k] @ drop k (tests ?st1)"
         "length (objs st') = length ts"
         "\<forall>j<length ts. objs st' ! j = (if j < k then rewritten parse ts j else objs ?st1 ! j)"
         "c st' = c ?st1" "console st' = console ?st1"
      by auto
    have ok: "objs ?st1 ! k = rewritten parse ts k"
      using True Suc.prems(4) kl by (simp add: rewritten_def)
    have "\<forall>j<length ts. objs st' ! j = (if j < Suc k then rewritten parse ts j else objs st ! j)"
    proof (intro allI impI)
      fix j assume j: "j < length ts"
      show "objs st' ! j = (if j < Suc k then rewritten parse ts j else objs st ! j)"
      proof (cases "j < k")
        case True
        with st'(4) j show ?thesis by simp
      next
        case False
        show ?thesis
        proof (cases "j = k")
          case True
          with st'(4) j ok show ?thesis by simp
        next
          case ne: False
          with False st'(4) j show ?thesis by simp
        qed
      qed
    qed
    moreover have "tests st' = filter (\<lambda>j. \<not> gone results parse ts j) [0..<Suc k] @ drop (Suc k) (tests st)"
      using st'(2) d1 by simp
    moreover have "run_its results parse (map (closure_of ts) (filter (executable ts) (rev [0..<Suc k]))) st =
           (map (reported results parse ts) (filter (executable ts) (rev [0..<Suc k])), st')"
      using True r1 st'(1) by (simp add: reported_def closure_of_def)
    ultimately show ?thesis using st'(3,5,6) by simp
  qed
qed


lemma mochaTest_loaded:
  "\<exists>st'. mochaTest results parse (loaded ts) =
          (map (reported results parse ts) (filter (executable ts) (rev [0..<length ts])), st',
           map (rewritten parse ts) (filter (\<lambda>j. \<not> gone results parse ts j) [0..<length ts]))
        \<and> tests st' = filter (\<lambda>j. \<not> gone results parse ts j) [0..<length ts]
        \<and> length (objs st') = length ts
        \<and> (\<forall>j<length ts. objs st' ! j = rewritten parse ts j)
        \<and> c st' = None \<and> console st' = []"
proof -
  have "\<exists>st'. run_its results parse
            (map (closure_of ts) (filter (executable ts) (rev [0..<length ts]))) (loaded ts) =
           (map (reported results parse ts) (filter (executable ts) (rev [0..<length ts])), st')
         \<and> tests st' = filter (\<lambda>j. \<not> gone results parse ts j) [0..<length ts]
               @ drop (length ts) (tests (loaded ts))
         \<and> length (objs st') = length ts
         \<and> (\<forall>j<length ts. objs st' ! j = (if j < length ts then rewritten parse ts j else objs (loaded ts) ! j))
         \<and> c st' = c (loaded ts) \<and> console st' = console (loaded ts)"
    by (rule run_its_closures) (simp_all add: loaded_def)
  then obtain st' where st':
    "run_its results parse (map (closure_of ts) (filter (executable ts) (rev [0..<length ts]))) (loaded ts) =
           (map (reported results parse ts) (filter (executable ts) (rev [0..<length ts])), st')"
    "tests st' = filter (\<lambda>j. \<not> gone results parse ts j) [0..<length ts]"
    "length (objs st') = length ts"
    "\<forall>j<length ts. objs st' ! j = rewritten parse ts j"
    "c st' = None" "console st' = []"
    by (auto simp: loaded_def)
  have "corpus st' = map (rewritten parse ts) (filter (\<lambda>j. \<not> gone results parse ts j) [0..<length ts])"
    unfolding corpus_def st'(2) using st'(4) by simp
  moreover have "length (tests (loaded ts)) = length ts" by (simp add: loaded_def)
  ultimately have "mochaTest results parse (loaded ts) =
          (map (reported results parse ts) (filter (executable ts) (rev [0..<length ts])), st',
           map (rewritten parse ts) (filter (\<lambda>j. \<not> gone results parse ts j) [0..<length ts]))"
    using st'(1) by (simp add: mochaTest_def register_loaded)
  with st' show ?thesis by blast
qed

lemma in_executables: "j < length ts \<Longrightarrow> executable ts j \<Longrightarrow> j \<in> set (filter (executable ts) (rev [0..<length ts]))"
  by simp

text \<open>
  Claim C2. Take an entry \<open>j\<close> of the corpus whose wikitext \<open>w\<close> is not empty, so that its test
  is run. If the parser throws on \<open>w\<close> a value that is no \<open>AssertionError\<close>, the object is no longer
  in \<open>tests\<close> when the run is over, so it is not among the objects written; the runner gets the
  value thrown, and when that is an \<^verbatim>\<open>Error\<close> its cause is a line feed and \<open>w\<close>; a corpus of this
  one case is written empty. If the parser returns
  \<open>p\<close> and the tokens of \<open>p\<close> differ from the expected ones, the object stays in \<open>tests\<close> with
  \<open>parsed\<close> set to \<open>p\<close>, and the runner gets the \<open>AssertionError\<close> of the comparison.
\<close>

theorem C2_crash_pruned_mismatch_kept:
  assumes "j < length ts" and "wikitext (ts ! j) = Some w" and "w \<noteq> []"
  shows "\<exists>outs st' written. mochaTest results parse (loaded ts) = (outs, st', written)
     \<and> written = map (\<lambda>r. objs st' ! r) (tests st')
     \<and> (\<forall>e. parse w = Inl e \<and> \<not> is_AssertionError e \<longrightarrow>
           j \<notin> set (tests st')
           \<and> (desc (ts ! j), Some (if is_Error e then annotate w e else e)) \<in> set outs
           \<and> (is_Error e \<longrightarrow> cause_message (annotate w e) = Some (nl @ w))
           \<and> (length ts = 1 \<longrightarrow> written = []))
     \<and> (\<forall>p. parse w = Inr p
             \<and> Some (split_str p) \<noteq> split (find (\<lambda>r. desc r = desc (ts ! j)) results) \<longrightarrow>
           j \<in> set (tests st')
           \<and> parsed (objs st' ! j) = Some p
           \<and> (desc (ts ! j),
               Some (AssertionError (Some (split_str p))
                       (split (find (\<lambda>r. desc r = desc (ts ! j)) results)) (Some (nl @ w)))) \<in> set outs)"
proof -
  from mochaTest_loaded [of results parse ts] obtain st' where st':
    "mochaTest results parse (loaded ts) =
          (map (reported results parse ts) (filter (executable ts) (rev [0..<length ts])), st',
           map (rewritten parse ts) (filter (\<lambda>j. \<not> gone results parse ts j) [0..<length ts]))"
    "tests st' = filter (\<lambda>j. \<not> gone results parse ts j) [0..<length ts]"
    "\<forall>j<length ts. objs st' ! j = rewritten parse ts j"
    by blast
  let ?outs = "map (reported results parse ts) (filter (executable ts) (rev [0..<length ts]))"
  let ?written = "map (rewritten parse ts) (filter (\<lambda>j. \<not> gone results parse ts j) [0..<length ts])"
  have ex: "executable ts j" using assms by (simp add: executable_def truthy_def)
  have w: "cl_wikitext (closure_of ts j) = w" "cl_desc (closure_of ts j) = desc (ts ! j)"
    using assms by (simp_all add: closure_of_def)
  have rep: "reported results parse ts j \<in> set ?outs"
    using in_executables [OF assms(1) ex] by (simp only: set_map image_eqI)
  have written: "?written = map (\<lambda>r. objs st' ! r) (tests st')"
    unfolding st'(2) using st'(3) by simp
  have crash: "j \<notin> set (tests st')
           \<and> (desc (ts ! j), Some (if is_Error e then annotate w e else e)) \<in> set ?outs
           \<and> (is_Error e \<longrightarrow> cause_message (annotate w e) = Some (nl @ w))
           \<and> (length ts = 1 \<longrightarrow> ?written = [])"
    if "parse w = Inl e \<and> \<not> is_AssertionError e" for e
  proof -
    from that have t: "try_outcome results parse w (desc (ts ! j)) = Some e"
      by (simp add: try_outcome_def)
    with that ex w have g: "gone results parse ts j" by (simp add: gone_def pruned_def)
    then have 1: "j \<notin> set (tests st')" by (simp add: st'(2))
    have 4: "length ts = 1 \<longrightarrow> ?written = []"
    proof
      assume l: "length ts = 1"
      with assms(1) have "j = 0" by simp
      with g l show "?written = []" by simp
    qed
    from t w have "reported results parse ts j = (desc (ts ! j), Some (if is_Error e then annotate w e else e))"
      by (simp add: reported_def rethrown_def)
    with rep have 2: "(desc (ts ! j), Some (if is_Error e then annotate w e else e)) \<in> set ?outs"
      by simp
    have 3: "is_Error e \<longrightarrow> cause_message (annotate w e) = Some (nl @ w)"
      by (cases e) simp_all
    from 1 2 3 4 show ?thesis by blast
  qed
  have mismatch: "j \<in> set (tests st')
           \<and> parsed (objs st' ! j) = Some p
           \<and> (desc (ts ! j),
               Some (AssertionError (Some (split_str p))
                       (split (find (\<lambda>r. desc r = desc (ts ! j)) results)) (Some (nl @ w)))) \<in> set ?outs"
    if "parse w = Inr p \<and> Some (split_str p) \<noteq> split (find (\<lambda>r. desc r = desc (ts ! j)) results)" for p
  proof -
    from that have t: "try_outcome results parse w (desc (ts ! j)) =
        Some (AssertionError (Some (split_str p)) (split (find (\<lambda>r. desc r = desc (ts ! j)) results)) None)"
      by (simp add: try_outcome_def)
    with w have "\<not> gone results parse ts j" by (simp add: gone_def pruned_def)
    with assms(1) have 1: "j \<in> set (tests st')" by (simp add: st'(2))
    from that ex w assms(1) st'(3) have 2: "parsed (objs st' ! j) = Some p"
      by (simp add: rewritten_def evaluated_def)
    from t w have "reported results parse ts j = (desc (ts ! j),
               Some (AssertionError (Some (split_str p))
                       (split (find (\<lambda>r. desc r = desc (ts ! j)) results)) (Some (nl @ w))))"
      by (simp add: reported_def rethrown_def)
    with rep have 3: "(desc (ts ! j),
               Some (AssertionError (Some (split_str p))
                       (split (find (\<lambda>r. desc r = desc (ts ! j)) results)) (Some (nl @ w)))) \<in> set ?outs"
      by simp
    from 1 2 3 show ?thesis by blast
  qed
  from st'(1) written crash mismatch show ?thesis by blast
qed


theorem C2_crash_pruned_mismatch_kept_witness:
  "2 < length corpus_demo \<and> wikitext (corpus_demo ! 2) = Some ''{{''
   \<and> parse_demo ''{{'' = Inl (OtherError ''unclosed'' None)
   \<and> 2 \<notin> set (tests (fst (snd (mochaTest results_demo parse_demo (loaded corpus_demo)))))
   \<and> (''crash'', Some (OtherError ''unclosed'' (Some (nl @ ''{{''))))
        \<in> set (fst (mochaTest results_demo parse_demo (loaded corpus_demo)))
   \<and> 0 < length corpus_demo \<and> wikitext (corpus_demo ! 0) = Some ''a''
   \<and> parse_demo ''a'' = Inr ''<p>a</>''
   \<and> 0 \<in> set (tests (fst (snd (mochaTest results_demo parse_demo (loaded corpus_demo)))))
   \<and> parsed (objs (fst (snd (mochaTest results_demo parse_demo (loaded corpus_demo)))) ! 0) = Some ''<p>a</>''"
proof -
  have h2: "2 < length corpus_demo" "wikitext (corpus_demo ! 2) = Some ''{{''" "''{{'' \<noteq> []"
    by (simp_all add: corpus_demo_def)
  have p2: "parse_demo ''{{'' = Inl (OtherError ''unclosed'' None)
      \<and> \<not> is_AssertionError (OtherError ''unclosed'' None)"
    by (simp add: parse_demo_def)
  have d2: "desc (corpus_demo ! 2) = ''crash''" by (simp add: corpus_demo_def)
  from C2_crash_pruned_mismatch_kept [OF h2, of results_demo parse_demo]
  obtain outs st' written where r: "mochaTest results_demo parse_demo (loaded corpus_demo) = (outs, st', written)"
    and crash: "\<forall>e. parse_demo ''{{'' = Inl e \<and> \<not> is_AssertionError e \<longrightarrow>
           2 \<notin> set (tests st')
           \<and> (desc (corpus_demo ! 2), Some (if is_Error e then annotate ''{{'' e else e)) \<in> set outs
           \<and> (is_Error e \<longrightarrow> cause_message (annotate ''{{'' e) = Some (nl @ ''{{''))
           \<and> (length corpus_demo = 1 \<longrightarrow> written = [])"
    by blast
  from crash p2 have "2 \<notin> set (tests st')
      \<and> (desc (corpus_demo ! 2), Some (if is_Error (OtherError ''unclosed'' None)
            then annotate ''{{'' (OtherError ''unclosed'' None) else OtherError ''unclosed'' None)) \<in> set outs"
    by blast
  with r d2 have A: "2 \<notin> set (tests (fst (snd (mochaTest results_demo parse_demo (loaded corpus_demo)))))
   \<and> (''crash'', Some (OtherError ''unclosed'' (Some (nl @ ''{{''))))
        \<in> set (fst (mochaTest results_demo parse_demo (loaded corpus_demo)))"
    by simp
  have h0: "0 < length corpus_demo" "wikitext (corpus_demo ! 0) = Some ''a''" "''a'' \<noteq> []"
    by (simp_all add: corpus_demo_def)
  have p0: "parse_demo ''a'' = Inr ''<p>a</>''" by (simp add: parse_demo_def)
  have "split_str ''<p>a</>'' = [''<p>a</>'']" "split_str ''old'' = [''old'']" by code_simp+
  then have m0: "Some (split_str ''<p>a</>'') \<noteq> split (find (\<lambda>r. desc r = desc (corpus_demo ! 0)) results_demo)"
    by (simp add: corpus_demo_def results_demo_def split_def)
  from C2_crash_pruned_mismatch_kept [OF h0, of results_demo parse_demo]
  obtain outs0 st0 written0 where r0: "mochaTest results_demo parse_demo (loaded corpus_demo) = (outs0, st0, written0)"
    and mis: "\<forall>p. parse_demo ''a'' = Inr p
             \<and> Some (split_str p) \<noteq> split (find (\<lambda>r. desc r = desc (corpus_demo ! 0)) results_demo) \<longrightarrow>
           0 \<in> set (tests st0) \<and> parsed (objs st0 ! 0) = Some p"
    by blast
  from mis p0 m0 have "0 \<in> set (tests st0) \<and> parsed (objs st0 ! 0) = Some ''<p>a</>''" by blast
  with r0 have B: "0 \<in> set (tests (fst (snd (mochaTest results_demo parse_demo (loaded corpus_demo)))))
   \<and> parsed (objs (fst (snd (mochaTest results_demo parse_demo (loaded corpus_demo)))) ! 0) = Some ''<p>a</>''"
    by simp
  from h2(1,2) p2 A h0(1,2) p0 B show ?thesis by blast
qed

text \<open>
  Claim C10. An entry \<open>j\<close> whose wikitext is the empty string is treated as one with no wikitext:
  no callback is registered for its index or its object, the object is still in \<open>tests\<close> when the
  run is over, it is what it was when loaded, and it is written to the file as it was.
\<close>

theorem C10_empty_wikitext_skipped:
  assumes "j < length ts" and "wikitext (ts ! j) = Some [] \<or> wikitext (ts ! j) = None"
  shows "\<exists>outs st' written. mochaTest results parse (loaded ts) = (outs, st', written)
     \<and> written = map (\<lambda>r. objs st' ! r) (tests st')
     \<and> (\<forall>cl \<in> set (register (loaded ts) (length (tests (loaded ts)))). cl_i cl \<noteq> j \<and> cl_test cl \<noteq> j)
     \<and> length outs = length (register (loaded ts) (length (tests (loaded ts))))
     \<and> j \<in> set (tests st') \<and> objs st' ! j = ts ! j \<and> ts ! j \<in> set written"
proof -
  from mochaTest_loaded [of results parse ts] obtain st' where st':
    "mochaTest results parse (loaded ts) =
          (map (reported results parse ts) (filter (executable ts) (rev [0..<length ts])), st',
           map (rewritten parse ts) (filter (\<lambda>j. \<not> gone results parse ts j) [0..<length ts]))"
    "tests st' = filter (\<lambda>j. \<not> gone results parse ts j) [0..<length ts]"
    "\<forall>j<length ts. objs st' ! j = rewritten parse ts j"
    by blast
  let ?outs = "map (reported results parse ts) (filter (executable ts) (rev [0..<length ts]))"
  let ?written = "map (rewritten parse ts) (filter (\<lambda>j. \<not> gone results parse ts j) [0..<length ts])"
  have nex: "\<not> executable ts j" using assms(2) by (auto simp: executable_def truthy_def)
  have len: "length (tests (loaded ts)) = length ts" by (simp add: loaded_def)
  have reg: "register (loaded ts) (length (tests (loaded ts))) =
      map (closure_of ts) (filter (executable ts) (rev [0..<length ts]))"
    by (simp add: len register_loaded)
  have 1: "?written = map (\<lambda>r. objs st' ! r) (tests st')"
    unfolding st'(2) using st'(3) by simp
  have 2: "\<forall>cl \<in> set (register (loaded ts) (length (tests (loaded ts)))). cl_i cl \<noteq> j \<and> cl_test cl \<noteq> j"
    unfolding reg using nex by (auto simp: closure_of_def)
  have 3: "length ?outs = length (register (loaded ts) (length (tests (loaded ts))))"
    unfolding reg by simp
  have ng: "\<not> gone results parse ts j" using nex by (simp add: gone_def)
  with assms(1) have 4: "j \<in> set (tests st')" by (simp add: st'(2))
  have rw: "rewritten parse ts j = ts ! j" using nex by (simp add: rewritten_def)
  with st'(3) assms(1) have 5: "objs st' ! j = ts ! j" by simp
  have "rewritten parse ts j \<in> set ?written" using ng assms(1) by simp
  with rw have 6: "ts ! j \<in> set ?written" by simp
  from st'(1) 1 2 3 4 5 6 show ?thesis by blast
qed


theorem C10_empty_wikitext_skipped_witness:
  "1 < length corpus_demo \<and> wikitext (corpus_demo ! 1) = Some []
   \<and> 1 \<in> set (tests (fst (snd (mochaTest results_demo parse_demo (loaded corpus_demo)))))
   \<and> objs (fst (snd (mochaTest results_demo parse_demo (loaded corpus_demo)))) ! 1 = corpus_demo ! 1
   \<and> corpus_demo ! 1 \<in> set (snd (snd (mochaTest results_demo parse_demo (loaded corpus_demo))))"
proof -
  have h: "1 < length corpus_demo" "wikitext (corpus_demo ! 1) = Some []"
    by (simp_all add: corpus_demo_def)
  from h(2) have h2: "wikitext (corpus_demo ! 1) = Some [] \<or> wikitext (corpus_demo ! 1) = None"
    by simp
  from C10_empty_wikitext_skipped [OF h(1) h2, of results_demo parse_demo]
  obtain outs st' written where r: "mochaTest results_demo parse_demo (loaded corpus_demo) = (outs, st', written)"
    and k: "1 \<in> set (tests st') \<and> objs st' ! 1 = corpus_demo ! 1 \<and> corpus_demo ! 1 \<in> set written"
    by blast
  from r k have "1 \<in> set (tests (fst (snd (mochaTest results_demo parse_demo (loaded corpus_demo)))))
   \<and> objs (fst (snd (mochaTest results_demo parse_demo (loaded corpus_demo)))) ! 1 = corpus_demo ! 1
   \<and> corpus_demo ! 1 \<in> set (snd (snd (mochaTest results_demo parse_demo (loaded corpus_demo))))"
    by simp
  with h show ?thesis by blast
qed












section \<open>\<open>execute\<close> at a failing request\<close>

text \<open>
  Claim C8, on the code. With two turns per site, the first answer of \<^verbatim>\<open>Wikipedia\<close> holds a page the
  parser throws on and the second request fails. The parse failure is written to the console,
  the failure of the request is caught and written too, the third site is still processed, and
  \<open>execute\<close> returns without raising: the count of the site is lost with the locals of the
  \<^verbatim>\<open>try\<close> block. When the second request is answered instead, \<open>execute\<close> raises the error that
  reports one failed page.
\<close>

theorem C8_failures_lost_on_api_error:
  "execute net_fails_second parse_rejects_braces (\<lambda>site i. 1) (Some 2) None (loaded []) =
     (Inr (),
      \<lparr>c = None, tests = [], objs = [],
       console =
         [LogStart (fst (apis ! 0)), LogWorst ''Fine'' 1,
          LogStart ''Wikipedia'', ErrParse ''Broken'' (OtherError ''unclosed'' None),
          ErrApi ''Wikipedia'' (OtherError ''fetch failed'' None),
          LogStart (fst (apis ! 2)), LogWorst ''Fine'' 1]\<rparr>)
   \<and> fst (execute net_answers parse_rejects_braces (\<lambda>site i. 1) (Some 2) None (loaded []))
       = Inl (OtherError (failure_message 1) None)"
  by code_simp

end
